theory Spec2Isabelle
  imports Complex_Main "HOL-Library.Sublist"
begin

section \<open>Strings\<close>

text \<open>
  A Python \<open>str\<close> is a sequence of Unicode code points, so a string of the program is a
  list of code points here. \<open>str\<close> embeds an ASCII literal; the accented letters of
  the translation table are written as their code points (U+00E7 and so on).
\<close>

type_synonym pystr = "nat list"

definition str :: "string \<Rightarrow> pystr" where
  "str s = map of_char s"

text \<open>The characters \<open>str.isspace\<close> accepts; \<open>str.strip()\<close> removes them at both ends.\<close>

definition isspace :: "nat \<Rightarrow> bool" where
  "isspace c \<longleftrightarrow>
     (9 \<le> c \<and> c \<le> 13) \<or> (28 \<le> c \<and> c \<le> 32) \<or> c = 133 \<or> c = 160 \<or> c = 5760 \<or>
     (8192 \<le> c \<and> c \<le> 8202) \<or> c = 8232 \<or> c = 8233 \<or> c = 8239 \<or> c = 8287 \<or> c = 12288"

definition strip :: "pystr \<Rightarrow> pystr" where
  "strip s = rev (dropWhile isspace (rev (dropWhile isspace s)))"

text \<open>\<open>sep.join(parts)\<close>.\<close>

fun join :: "pystr \<Rightarrow> pystr list \<Rightarrow> pystr" where
  "join sep [] = []"
| "join sep [p] = p"
| "join sep (p # q # ps) = p @ sep @ join sep (q # ps)"

text \<open>\<open>sub in s\<close>: the string \<open>sub\<close> occurs in \<open>s\<close> as a contiguous piece.\<close>

fun contains :: "pystr \<Rightarrow> pystr \<Rightarrow> bool" where
  "contains sub [] = (sub = [])"
| "contains sub (c # cs) = (prefix sub (c # cs) \<or> contains sub cs)"

section \<open>Configuration\<close>

text \<open>
  \<open>COLUMN_TRANSLATIONS\<close> (lines 13 to 32) and \<open>SEASONS\<close> (lines 35 to 42), as the
  dictionary literals list their entries. The season code \<open>None\<close> of the first season
  is the marker of the current season.
\<close>

definition COLUMN_TRANSLATIONS :: "(pystr \<times> pystr) list" where
  "COLUMN_TRANSLATIONS =
    [(str ''Class.'', str ''Classifica'' @ [231, 227] @ str ''o''),
     (str ''Pa'' @ [237] @ str ''s'', str ''Pa'' @ [237] @ str ''s''),
     (str ''LgRk'', str ''Posi'' @ [231, 227] @ str ''o na Liga''),
     (str ''MP'', str ''Jogos Disputados''),
     (str ''V'', str ''Vit'' @ [243] @ str ''rias''),
     (str ''E'', str ''Empates''),
     (str ''D'', str ''Derrotas''),
     (str ''GP'', str ''Gols pr'' @ [243]),
     (str ''GC'', str ''Gols contra''),
     (str ''GD'', str ''Diferen'' @ [231] @ str ''a de Gols''),
     (str ''Pt'', str ''Pontos''),
     (str ''Pts/PPJ'', str ''Pontos/Partida''),
     (str ''xG'', str ''Gols previstos''),
     (str ''xGA'', str ''xG sofrido''),
     (str ''xGD'', str ''Diferen'' @ [231] @ str ''a xG''),
     (str ''xGD/90'', str ''Diferen'' @ [231] @ str ''a xG/90''),
     ([218] @ str ''ltimos 5'', [218] @ str ''ltimas cinco partidas''),
     (str ''P'' @ [250] @ str ''blico'', str ''Comparecimento/Jogo'')]"

definition SEASONS :: "(pystr \<times> pystr option) list" where
  "SEASONS =
    [(str ''2023-2024 (Atual)'', None),
     (str ''2022-2023'', Some (str ''2022-2023'')),
     (str ''2021-2022'', Some (str ''2021-2022'')),
     (str ''2020-2021'', Some (str ''2020-2021'')),
     (str ''2019-2020'', Some (str ''2019-2020'')),
     (str ''2018-2019'', Some (str ''2018-2019''))]"

section \<open>Data frames\<close>

text \<open>
  A cell of a frame is missing (pandas' NaN or None, polars' null), a number or a text.
  The column labels of the frame \<open>pd.read_html\<close> returns are an \<open>Index\<close> of labels or,
  for a header of several stacked rows, a \<open>MultiIndex\<close> of tuples of labels, one tuple a
  column. Labels are strings, as \<open>read_html\<close> delivers them for a table with a header.
  From line 62 on the labels are flat; \<open>table\<close> is that frame, in pandas and in polars.
\<close>

datatype cell = Null | Num rat | Str pystr

datatype columns_index = Index "pystr list" | MultiIndex "pystr list list"

record raw_table =
  header :: columns_index
  body :: "cell list list"

record table =
  columns :: "pystr list"
  rows :: "cell list list"

text \<open>
  Lines 61 and 62: a \<open>MultiIndex\<close> is replaced by the list of
  \<open>' '.join(col).strip()\<close>, any other index is left as it is.
\<close>

definition flatten_header :: "columns_index \<Rightarrow> pystr list" where
  "flatten_header h =
     (case h of
        MultiIndex cols \<Rightarrow> map (\<lambda>col. strip (join (str '' '') col)) cols
      | Index labels \<Rightarrow> labels)"

definition flatten :: "raw_table \<Rightarrow> table" where
  "flatten df = \<lparr>columns = flatten_header (header df), rows = body df\<rparr>"

text \<open>
  Line 63, \<open>df.rename(columns=mapper)\<close> with a dictionary: a label that is a key of the
  dictionary is replaced by its value, any other label stays; the cells are not touched.
\<close>

definition translate :: "(pystr \<times> pystr) list \<Rightarrow> pystr \<Rightarrow> pystr" where
  "translate mapper label = (case map_of mapper label of Some t \<Rightarrow> t | None \<Rightarrow> label)"

definition rename :: "(pystr \<times> pystr) list \<Rightarrow> table \<Rightarrow> table" where
  "rename mapper df = df\<lparr>columns := map (translate mapper) (columns df)\<rparr>"

text \<open>
  Line 65, \<open>pl.from_pandas\<close>: the conversion builds a dictionary from column name to
  column, so of several columns of one name the first keeps its place and the last gives
  the data (the edge case the specification documents), and it maps NaN to null, both
  \<open>Null\<close> here. \<open>dict_of\<close> is a Python dictionary filled in list order.
\<close>

fun dict_set :: "'k \<Rightarrow> 'v \<Rightarrow> ('k \<times> 'v) list \<Rightarrow> ('k \<times> 'v) list" where
  "dict_set k v [] = [(k, v)]"
| "dict_set k v ((k', v') # d) = (if k' = k then (k, v) # d else (k', v') # dict_set k v d)"

definition dict_of :: "('k \<times> 'v) list \<Rightarrow> ('k \<times> 'v) list" where
  "dict_of kvs = foldl (\<lambda>d (k, v). dict_set k v d) [] kvs"

definition from_pandas :: "table \<Rightarrow> table" where
  "from_pandas df =
     \<lparr>columns = map fst (dict_of (zip (columns df) (columns df))),
      rows = map (\<lambda>r. map snd (dict_of (zip (columns df) r))) (rows df)\<rparr>"

text \<open>Line 65, \<open>drop_nulls()\<close>: only the rows without a null in any column are kept.\<close>

definition has_null :: "cell list \<Rightarrow> bool" where
  "has_null r \<longleftrightarrow> Null \<in> set r"

definition drop_nulls :: "table \<Rightarrow> table" where
  "drop_nulls df = df\<lparr>rows := filter (\<lambda>r. \<not> has_null r) (rows df)\<rparr>"

section \<open>The environment\<close>

text \<open>
  What the program does not decide: the answer of the site to a GET, the tables
  \<open>pd.read_html\<close> finds in a document, and whether the conversion to polars raises for
  a frame. A call that raises returns \<open>Inl\<close> with the text of the exception. A response
  carries its status code, which \<open>requests.get\<close> does not turn into an exception.
\<close>

type_synonym exn = pystr

record response =
  status_code :: nat
  response_text :: pystr

record env =
  http_get :: "pystr \<Rightarrow> (pystr \<times> pystr) list \<Rightarrow> exn + response"
  read_html :: "pystr \<Rightarrow> exn + raw_table list"
  from_pandas_raises :: "table \<Rightarrow> exn option"

text \<open>What a call does besides returning: the requests, the parses, the messages shown.\<close>

datatype event = Get pystr | ReadHtml pystr | Error pystr

section \<open>load_data\<close>

definition truthy :: "pystr option \<Rightarrow> bool" where
  "truthy season_code = (case season_code of None \<Rightarrow> False | Some s \<Rightarrow> s \<noteq> [])"

definition url :: "pystr option \<Rightarrow> pystr" where
  "url season_code =
     (if truthy season_code
      then str ''https://fbref.com/pt/comps/Big5/'' @ the season_code @ str ''/'' @
           the season_code @ str ''-Maiores-5-Ligas-Europeias-Estatisticas''
      else str ''https://fbref.com/pt/comps/Big5/Maiores-5-Ligas-Europeias-Estatisticas'')"

definition headers :: "(pystr \<times> pystr) list" where
  "headers =
     [(str ''User-Agent'',
       str ''Mozilla/5.0 (Windows NT 10.0; Win64; x64) AppleWebKit/537.36 (KHTML, like Gecko) Chrome/58.0.3029.110 Safari/537.3'')]"

text \<open>
  The handler of lines 68 to 70: the message is shown and the function returns None.
  \<open>events\<close> are the events before the exception.
\<close>

definition failed :: "event list \<Rightarrow> exn \<Rightarrow> table option \<times> event list" where
  "failed events e = (None, events @ [Error (str ''Erro ao carregar dados: '' @ e)])"

text \<open>
  Lines 46 to 70, the body of the function: the value returned and the events of the
  call in their order. \<open>tables[0]\<close> of an empty list raises IndexError.
\<close>

definition load_data :: "env \<Rightarrow> pystr option \<Rightarrow> table option \<times> event list" where
  "load_data w season_code =
     (case http_get w (url season_code) headers of
        Inl e \<Rightarrow> failed [Get (url season_code)] e
      | Inr response \<Rightarrow>
          (case read_html w (response_text response) of
             Inl e \<Rightarrow> failed [Get (url season_code), ReadHtml (response_text response)] e
           | Inr tables \<Rightarrow>
               (case tables of
                  [] \<Rightarrow> failed [Get (url season_code), ReadHtml (response_text response)]
                          (str ''list index out of range'')
                | df_pd # _ \<Rightarrow>
                    (let df_pd = rename COLUMN_TRANSLATIONS (flatten df_pd) in
                     case from_pandas_raises w df_pd of
                       Some e \<Rightarrow> failed [Get (url season_code), ReadHtml (response_text response)] e
                     | None \<Rightarrow>
                         (Some (drop_nulls (from_pandas df_pd)),
                          [Get (url season_code), ReadHtml (response_text response)])))))"

section \<open>load_data, statement by statement\<close>

text \<open>
  The same function with the exception as an outcome of its own. A statement returns a
  value or raises, and shows its events either way; \<open>and_then\<close> is the sequence of two
  statements, in which an exception of the first skips the second and goes on to the
  caller; \<open>try_except\<close> is \<open>try: ... except Exception as e: ...\<close>, in which an
  exception of the body runs the handler, and an exception of the handler goes on to the
  caller.
\<close>

datatype 'a outcome = Returns 'a | Raises exn

type_synonym 'a step = "'a outcome \<times> event list"

fun and_then :: "'a step \<Rightarrow> ('a \<Rightarrow> 'b step) \<Rightarrow> 'b step" where
  "and_then (Returns x, events) rest = (fst (rest x), events @ snd (rest x))"
| "and_then (Raises e, events) rest = (Raises e, events)"

fun try_except :: "'a step \<Rightarrow> (exn \<Rightarrow> 'a step) \<Rightarrow> 'a step" where
  "try_except (Returns x, events) handler = (Returns x, events)"
| "try_except (Raises e, events) handler = (fst (handler e), events @ snd (handler e))"

text \<open>
  The calls of the function: \<open>requests.get\<close>, \<open>pd.read_html\<close>, \<open>tables[0]\<close>,
  \<open>pl.from_pandas\<close> and \<open>st.error\<close>. The first four raise as the environment says,
  \<open>tables[0]\<close> on the empty list.
\<close>

definition requests_get :: "env \<Rightarrow> pystr \<Rightarrow> (pystr \<times> pystr) list \<Rightarrow> response step" where
  "requests_get w u h =
     (case http_get w u h of Inl e \<Rightarrow> (Raises e, [Get u]) | Inr r \<Rightarrow> (Returns r, [Get u]))"

definition pd_read_html :: "env \<Rightarrow> pystr \<Rightarrow> raw_table list step" where
  "pd_read_html w doc =
     (case read_html w doc of
        Inl e \<Rightarrow> (Raises e, [ReadHtml doc])
      | Inr tables \<Rightarrow> (Returns tables, [ReadHtml doc]))"

definition first_table :: "raw_table list \<Rightarrow> raw_table step" where
  "first_table tables =
     (case tables of
        [] \<Rightarrow> (Raises (str ''list index out of range''), [])
      | df_pd # _ \<Rightarrow> (Returns df_pd, []))"

definition pl_from_pandas :: "env \<Rightarrow> table \<Rightarrow> table step" where
  "pl_from_pandas w df_pd =
     (case from_pandas_raises w df_pd of
        Some e \<Rightarrow> (Raises e, [])
      | None \<Rightarrow> (Returns (from_pandas df_pd), []))"

definition st_error :: "pystr \<Rightarrow> unit step" where
  "st_error message = (Returns (), [Error message])"

text \<open>
  Lines 57 to 66, the body of the \<open>try\<close>, with the URL of lines 48 to 51; lines 69 and
  70, the handler; and the function, lines 46 to 70: the URL and the headers are
  computed before the \<open>try\<close>, so an exception there would reach the caller, as would
  one of the handler.
\<close>

definition load_data_try ::
  "env \<Rightarrow> pystr \<Rightarrow> (pystr \<times> pystr) list \<Rightarrow> table option step" where
  "load_data_try w u h =
     and_then (requests_get w u h) (\<lambda>response.
     and_then (pd_read_html w (response_text response)) (\<lambda>tables.
     and_then (first_table tables) (\<lambda>df_pd.
     and_then (pl_from_pandas w (rename COLUMN_TRANSLATIONS (flatten df_pd))) (\<lambda>df.
     (Returns (Some (drop_nulls df)), [])))))"

definition load_data_except :: "exn \<Rightarrow> table option step" where
  "load_data_except e =
     and_then (st_error (str ''Erro ao carregar dados: '' @ e)) (\<lambda>_. (Returns None, []))"

definition load_data_stmts :: "env \<Rightarrow> pystr option \<Rightarrow> table option step" where
  "load_data_stmts w season_code =
     and_then (Returns (url season_code), []) (\<lambda>u.
     and_then (Returns headers, []) (\<lambda>h.
     try_except (load_data_try w u h) load_data_except))"

section \<open>The cache\<close>

text \<open>
  Line 45: \<open>st.cache_data\<close> keeps, for each argument the function was called with, the
  value the call returned and the messages it showed. A later call with that argument
  does not run the function: it shows the stored messages again and returns the stored
  value. No entry is removed (no \<open>ttl\<close>, no \<open>max_entries\<close>).
\<close>

record ('a, 'r) session =
  cache :: "'a \<rightharpoonup> 'r \<times> event list"
  trace :: "event list"

fun is_message :: "event \<Rightarrow> bool" where
  "is_message (Error m) = True"
| "is_message _ = False"

definition cache_data ::
  "('a \<Rightarrow> 'r \<times> event list) \<Rightarrow> 'a \<Rightarrow> ('a, 'r) session \<Rightarrow> 'r \<times> ('a, 'r) session" where
  "cache_data f x s =
     (case cache s x of
        Some (value, messages) \<Rightarrow> (value, s\<lparr>trace := trace s @ messages\<rparr>)
      | None \<Rightarrow>
          (let (value, events) = f x
           in (value, s\<lparr>cache := (cache s)(x \<mapsto> (value, filter is_message events)),
                        trace := trace s @ events\<rparr>)))"

text \<open>A run of calls, each with the site as it is at that moment.\<close>

fun calls :: "(env \<times> pystr option) list \<Rightarrow> (pystr option, table option) session \<Rightarrow>
    (pystr option, table option) session" where
  "calls [] s = s"
| "calls ((w, season_code) # cs) s = calls cs (snd (cache_data (load_data w) season_code s))"

section \<open>Scenarios\<close>

text \<open>
  Concrete situations for the examples below: a session that has not called yet, a site
  that cannot be reached, and a site whose page holds one table with the columns MP and
  V: a row of a number and a text, the row of the specification's scenario (10 and an
  em dash, U+2014), and a row with a missing value. The dash is not among the strings
  \<open>read_html\<close> reads as NaN, so the column V arrives as a column of texts.
  \<open>site_not_found\<close> serves the same page with status 404.
\<close>

definition fresh :: "(pystr option, table option) session" where
  "fresh = \<lparr>cache = Map.empty, trace = []\<rparr>"

definition scenario_table :: raw_table where
  "scenario_table =
     \<lparr>header = Index [str ''MP'', str ''V''],
      body = [[Num 12, Str (str ''8'')], [Num 10, Str [8212]], [Num 11, Null]]\<rparr>"

definition site_down :: env where
  "site_down =
     \<lparr>http_get = (\<lambda>u h. Inl (str ''Connection refused'')),
      read_html = (\<lambda>doc. Inl (str ''No tables found'')),
      from_pandas_raises = (\<lambda>df. None)\<rparr>"

definition site_up :: env where
  "site_up =
     \<lparr>http_get = (\<lambda>u h. Inr \<lparr>status_code = 200, response_text = str ''<table>''\<rparr>),
      read_html = (\<lambda>doc. Inr [scenario_table]),
      from_pandas_raises = (\<lambda>df. None)\<rparr>"

definition site_not_found :: env where
  "site_not_found =
     \<lparr>http_get = (\<lambda>u h. Inr \<lparr>status_code = 404, response_text = str ''<table>''\<rparr>),
      read_html = (\<lambda>doc. Inr [scenario_table]),
      from_pandas_raises = (\<lambda>df. None)\<rparr>"

definition site_no_table :: env where
  "site_no_table =
     \<lparr>http_get = (\<lambda>u h. Inr \<lparr>status_code = 200, response_text = str ''<p>''\<rparr>),
      read_html = (\<lambda>doc. Inl (str ''No tables found'')),
      from_pandas_raises = (\<lambda>df. None)\<rparr>"

text \<open>
  A site whose document gives an empty list of tables, and one whose table the
  conversion to polars rejects.
\<close>

definition site_without_frame :: env where
  "site_without_frame =
     \<lparr>http_get = (\<lambda>u h. Inr \<lparr>status_code = 200, response_text = str ''<p>''\<rparr>),
      read_html = (\<lambda>doc. Inr []),
      from_pandas_raises = (\<lambda>df. None)\<rparr>"

definition site_unconvertible :: env where
  "site_unconvertible =
     \<lparr>http_get = (\<lambda>u h. Inr \<lparr>status_code = 200, response_text = str ''<table>''\<rparr>),
      read_html = (\<lambda>doc. Inr [scenario_table]),
      from_pandas_raises = (\<lambda>df. Some (str ''Could not convert''))\<rparr>"

text \<open>What \<open>load_data\<close> returns for \<open>site_up\<close>.\<close>

definition scenario_result :: table where
  "scenario_result =
     \<lparr>columns = [str ''Jogos Disputados'', str ''Vit'' @ [243] @ str ''rias''],
      rows = [[Num 12, Str (str ''8'')], [Num 10, Str [8212]]]\<rparr>"

section \<open>Lemmas on strings and dictionaries\<close>

lemma last_dropWhile_nonempty: "dropWhile P xs \<noteq> [] \<Longrightarrow> last (dropWhile P xs) = last xs"
  by (induction xs) (auto split: if_splits)

lemma strip_decompose:
  "\<exists>pre post. s = pre @ strip s @ post \<and> (\<forall>c\<in>set pre. isspace c) \<and> (\<forall>c\<in>set post. isspace c)"
proof -
  let ?d = "dropWhile isspace s"
  let ?pre = "takeWhile isspace s"
  let ?post = "rev (takeWhile isspace (rev ?d))"
  have "takeWhile isspace (rev ?d) @ dropWhile isspace (rev ?d) = rev ?d"
    by (rule takeWhile_dropWhile_id)
  then have "rev (takeWhile isspace (rev ?d) @ dropWhile isspace (rev ?d)) = rev (rev ?d)"
    by (rule arg_cong)
  then have d: "?d = strip s @ ?post"
    by (simp only: rev_append rev_rev_ident strip_def)
  have "s = ?pre @ ?d"
    by simp
  with d have "s = ?pre @ strip s @ ?post"
    by simp
  moreover have "\<forall>c\<in>set ?pre. isspace c"
    by (blast dest: set_takeWhileD)
  moreover have "\<forall>c\<in>set ?post. isspace c"
  proof
    fix c
    assume "c \<in> set ?post"
    then have "c \<in> set (takeWhile isspace (rev ?d))"
      by (simp only: set_rev)
    then show "isspace c"
      by (blast dest: set_takeWhileD)
  qed
  ultimately show ?thesis
    by blast
qed

lemma strip_edges:
  assumes "strip s \<noteq> []"
  shows "\<not> isspace (hd (strip s)) \<and> \<not> isspace (last (strip s))"
proof -
  let ?d = "dropWhile isspace s"
  let ?e = "dropWhile isspace (rev ?d)"
  from assms have e: "?e \<noteq> []"
    by (simp add: strip_def)
  have d: "?d \<noteq> []"
  proof
    assume "?d = []"
    then have "?e = []" by (simp only: rev.simps dropWhile.simps)
    with e show False by (rule notE)
  qed
  have "last (strip s) = hd ?e"
    using e by (simp add: strip_def last_rev)
  moreover have "\<not> isspace (hd ?e)"
    using e by (rule hd_dropWhile)
  moreover have "hd (strip s) = last ?e"
    using e by (simp add: strip_def hd_rev)
  moreover have "last ?e = last (rev ?d)"
    using e by (rule last_dropWhile_nonempty)
  moreover have "last (rev ?d) = hd ?d"
    using d by (simp add: last_rev)
  moreover have "\<not> isspace (hd ?d)"
    using d by (rule hd_dropWhile)
  ultimately show ?thesis
    by simp
qed

lemma dict_set_keys: "fst ` set (dict_set k v d) = insert k (fst ` set d)"
  by (induction d) (force+)

lemma dict_set_fresh: "k \<notin> fst ` set d \<Longrightarrow> dict_set k v d = d @ [(k, v)]"
  by (induction d) auto

lemma dict_set_distinct: "distinct (map fst d) \<Longrightarrow> distinct (map fst (dict_set k v d))"
  by (induction d) (auto simp: dict_set_keys)

lemma foldl_dict_set_keys:
  "fst ` set (foldl (\<lambda>d (k, v). dict_set k v d) d kvs) = fst ` set d \<union> fst ` set kvs"
proof (induction kvs arbitrary: d)
  case Nil
  show ?case by simp
next
  case (Cons kv kvs)
  obtain k v where kv: "kv = (k, v)"
    by (cases kv)
  have "fst ` set (foldl (\<lambda>d (k, v). dict_set k v d) (dict_set k v d) kvs) =
      fst ` set (dict_set k v d) \<union> fst ` set kvs"
    by (rule Cons.IH)
  then have "fst ` set (foldl (\<lambda>d (k, v). dict_set k v d) (dict_set k v d) kvs) =
      insert k (fst ` set d) \<union> fst ` set kvs"
    by (simp only: dict_set_keys)
  then show ?case
    by (simp add: kv)
qed

lemma foldl_dict_set_distinct:
  "distinct (map fst d) \<Longrightarrow> distinct (map fst (foldl (\<lambda>d (k, v). dict_set k v d) d kvs))"
  by (induction kvs arbitrary: d) (auto simp: dict_set_distinct)

lemma foldl_dict_set_fresh:
  "distinct (map fst d @ ks) \<Longrightarrow>
   foldl (\<lambda>d (k, v). dict_set k v d) d (zip ks vs) = d @ zip ks vs"
proof (induction ks arbitrary: d vs)
  case Nil
  then show ?case by simp
next
  case (Cons k ks)
  show ?case
  proof (cases vs)
    case Nil
    then show ?thesis by simp
  next
    case (Cons v vs')
    from Cons.prems have fresh: "k \<notin> fst ` set d"
      by auto
    from Cons.prems have "distinct (map fst (d @ [(k, v)]) @ ks)"
      by auto
    then have "foldl (\<lambda>d (k, v). dict_set k v d) (d @ [(k, v)]) (zip ks vs') = (d @ [(k, v)]) @ zip ks vs'"
      by (rule Cons.IH)
    with fresh Cons show ?thesis
      by (simp add: dict_set_fresh)
  qed
qed

lemma dict_of_keys: "set (map fst (dict_of (zip ks ks))) = set ks"
  by (simp add: dict_of_def foldl_dict_set_keys zip_same_conv_map image_image)

lemma dict_of_distinct_keys: "distinct (map fst (dict_of kvs))"
  by (simp add: dict_of_def foldl_dict_set_distinct)

lemma dict_of_distinct: "distinct ks \<Longrightarrow> dict_of (zip ks vs) = zip ks vs"
  using foldl_dict_set_fresh [of "[]" ks vs] by (simp add: dict_of_def)

lemma from_pandas_columns_distinct: "distinct (columns (from_pandas df))"
  by (simp only: from_pandas_def table.select_convs dict_of_distinct_keys)

lemma join_levels: "join sep (p # ps) = p @ concat (map (\<lambda>q. sep @ q) ps)"
  by (induction sep "p # ps" arbitrary: p ps rule: join.induct) simp_all

lemma from_pandas_columns: "set (columns (from_pandas df)) = set (columns df)"
  by (simp only: from_pandas_def table.select_convs dict_of_keys)

lemma drop_nulls_columns: "columns (drop_nulls df) = columns df"
  by (simp add: drop_nulls_def)

lemma length_filter_eq_iff: "length (filter P xs) = length xs \<longleftrightarrow> (\<forall>x\<in>set xs. P x)"
proof (induction xs)
  case Nil
  show ?case by simp
next
  case (Cons x xs)
  have "length (filter P xs) \<noteq> Suc (length xs)"
    using length_filter_le [of P xs] by arith
  with Cons show ?case
    by auto
qed

lemma drop_nulls_rows: "rows (drop_nulls df) = filter (\<lambda>r. Null \<notin> set r) (rows df)"
  by (simp add: drop_nulls_def has_null_def)

lemma from_pandas_rows:
  "rows (from_pandas df) = map (\<lambda>r. map snd (dict_of (zip (columns df) r))) (rows df)"
  by (simp add: from_pandas_def)

section \<open>Lemmas on load_data\<close>

lemma load_data_Some:
  assumes "load_data w season_code = (Some t, evs)"
  shows "\<exists>r df rest. http_get w (url season_code) headers = Inr r \<and>
           read_html w (response_text r) = Inr (df # rest) \<and>
           from_pandas_raises w (rename COLUMN_TRANSLATIONS (flatten df)) = None \<and>
           t = drop_nulls (from_pandas (rename COLUMN_TRANSLATIONS (flatten df))) \<and>
           evs = [Get (url season_code), ReadHtml (response_text r)]"
  using assms
  by (auto simp: load_data_def failed_def Let_def split: sum.splits list.splits option.splits)

lemma rename_flatten_scenario:
  "rename COLUMN_TRANSLATIONS (flatten scenario_table) =
     \<lparr>columns = [str ''Jogos Disputados'', str ''Vit'' @ [243] @ str ''rias''],
      rows = [[Num 12, Str (str ''8'')], [Num 10, Str [8212]], [Num 11, Null]]\<rparr>"
  by (simp add: scenario_table_def flatten_def flatten_header_def rename_def translate_def
      COLUMN_TRANSLATIONS_def str_def)

lemma normalize_scenario:
  "drop_nulls (from_pandas (rename COLUMN_TRANSLATIONS (flatten scenario_table))) = scenario_result"
  by (simp add: rename_flatten_scenario scenario_result_def from_pandas_def dict_of_def
      drop_nulls_def has_null_def str_def)

lemma load_data_site_up:
  "load_data site_up season_code =
     (Some scenario_result, [Get (url season_code), ReadHtml (str ''<table>'')])"
  by (simp add: load_data_def site_up_def normalize_scenario)

lemma load_data_rows:
  assumes "load_data w season_code = (Some t, evs)"
    and "http_get w (url season_code) headers = Inr r"
    and "read_html w (response_text r) = Inr (raw # rest)"
  shows "t = drop_nulls (from_pandas (rename COLUMN_TRANSLATIONS (flatten raw)))"
  using load_data_Some [OF assms(1)] assms(2,3) by auto

lemma load_data_site_not_found:
  "load_data site_not_found season_code =
     (Some scenario_result, [Get (url season_code), ReadHtml (str ''<table>'')])"
  by (simp add: load_data_def site_not_found_def normalize_scenario)

lemma load_data_site_down:
  "load_data site_down season_code =
     (None, [Get (url season_code), Error (str ''Erro ao carregar dados: '' @ str ''Connection refused'')])"
  by (simp add: load_data_def site_down_def failed_def)

lemma load_data_site_no_table:
  "load_data site_no_table season_code =
     (None, [Get (url season_code), ReadHtml (str ''<p>''),
             Error (str ''Erro ao carregar dados: '' @ str ''No tables found'')])"
  by (simp add: load_data_def site_no_table_def failed_def)

lemma load_data_get_raises:
  "http_get w (url season_code) headers = Inl e \<Longrightarrow>
   load_data w season_code =
     (None, [Get (url season_code), Error (str ''Erro ao carregar dados: '' @ e)])"
  by (simp add: load_data_def failed_def)

lemma load_data_read_html_raises:
  "http_get w (url season_code) headers = Inr r \<Longrightarrow>
   read_html w (response_text r) = Inl e \<Longrightarrow>
   load_data w season_code =
     (None, [Get (url season_code), ReadHtml (response_text r),
             Error (str ''Erro ao carregar dados: '' @ e)])"
  by (simp add: load_data_def failed_def)

lemma load_data_cases:
  "(\<exists>t doc. load_data w season_code = (Some t, [Get (url season_code), ReadHtml doc])) \<or>
   (\<exists>e. load_data w season_code =
      (None, [Get (url season_code), Error (str ''Erro ao carregar dados: '' @ e)])) \<or>
   (\<exists>e doc. load_data w season_code =
      (None, [Get (url season_code), ReadHtml doc, Error (str ''Erro ao carregar dados: '' @ e)]))"
  by (simp add: load_data_def failed_def Let_def split: sum.splits list.splits option.splits)

lemma load_data_status_code:
  "load_data (w\<lparr>http_get := \<lambda>u h. map_sum (\<lambda>e. e) (\<lambda>r. r\<lparr>status_code := code\<rparr>) (http_get w u h)\<rparr>)
     season_code = load_data w season_code"
  by (cases "http_get w (url season_code) headers")
    (simp_all add: load_data_def Let_def split: sum.splits list.splits option.splits)

lemma from_pandas_plain:
  assumes "distinct (columns df)" and "\<forall>row\<in>set (rows df). length row = length (columns df)"
  shows "rows (from_pandas df) = rows df"
  using assms by (simp add: from_pandas_rows dict_of_distinct map_idI)

lemma load_data_rows_plain:
  assumes "load_data w season_code = (Some t, evs)"
    and "http_get w (url season_code) headers = Inr r"
    and "read_html w (response_text r) = Inr (raw # rest)"
    and "distinct (map (translate COLUMN_TRANSLATIONS) (flatten_header (header raw)))"
    and "\<forall>row\<in>set (body raw). length row = length (flatten_header (header raw))"
  shows "rows t = filter (\<lambda>row. Null \<notin> set row) (body raw)"
proof -
  let ?df = "rename COLUMN_TRANSLATIONS (flatten raw)"
  have t: "t = drop_nulls (from_pandas ?df)"
    using assms(1-3) by (rule load_data_rows)
  have "rows (from_pandas ?df) = rows ?df"
    using assms(4,5) by (intro from_pandas_plain) (simp_all add: rename_def flatten_def)
  then have "rows (from_pandas ?df) = body raw"
    by (simp add: rename_def flatten_def)
  with t show ?thesis
    by (simp add: drop_nulls_rows)
qed

section \<open>Lemmas on the statements of load_data\<close>

lemma load_data_try_cases:
  "load_data_try w u headers =
     (case http_get w u headers of
        Inl e \<Rightarrow> (Raises e, [Get u])
      | Inr r \<Rightarrow>
          (case read_html w (response_text r) of
             Inl e \<Rightarrow> (Raises e, [Get u, ReadHtml (response_text r)])
           | Inr [] \<Rightarrow>
               (Raises (str ''list index out of range''), [Get u, ReadHtml (response_text r)])
           | Inr (raw # rest) \<Rightarrow>
               (case from_pandas_raises w (rename COLUMN_TRANSLATIONS (flatten raw)) of
                  Some e \<Rightarrow> (Raises e, [Get u, ReadHtml (response_text r)])
                | None \<Rightarrow>
                    (Returns (Some (drop_nulls (from_pandas
                       (rename COLUMN_TRANSLATIONS (flatten raw))))),
                     [Get u, ReadHtml (response_text r)]))))"
  by (simp add: load_data_try_def requests_get_def pd_read_html_def first_table_def
      pl_from_pandas_def split: sum.splits list.splits option.splits)

lemma load_data_stmts_try:
  "load_data_stmts w season_code =
     try_except (load_data_try w (url season_code) headers) load_data_except"
  by (simp add: load_data_stmts_def)

lemma load_data_except_eq:
  "load_data_except e = (Returns None, [Error (str ''Erro ao carregar dados: '' @ e)])"
  by (simp add: load_data_except_def st_error_def)

lemma load_data_stmts_eq:
  "load_data_stmts w season_code =
     (Returns (fst (load_data w season_code)), snd (load_data w season_code))"
  by (simp add: load_data_stmts_try load_data_try_cases load_data_except_eq load_data_def
      failed_def Let_def split: sum.splits list.splits option.splits)

lemma try_raises:
  "fst (load_data_try w u headers) = Raises e \<longleftrightarrow>
     http_get w u headers = Inl e \<or>
     (\<exists>r. http_get w u headers = Inr r \<and>
        (read_html w (response_text r) = Inl e \<or>
         read_html w (response_text r) = Inr [] \<and> e = str ''list index out of range'' \<or>
         (\<exists>raw rest. read_html w (response_text r) = Inr (raw # rest) \<and>
            from_pandas_raises w (rename COLUMN_TRANSLATIONS (flatten raw)) = Some e)))"
  by (auto simp: load_data_try_cases split: sum.splits list.splits option.splits)

lemma stmts_after_raise:
  "fst (load_data_try w (url season_code) headers) = Raises e \<Longrightarrow>
   load_data_stmts w season_code =
     (Returns None,
      snd (load_data_try w (url season_code) headers) @ [Error (str ''Erro ao carregar dados: '' @ e)])"
  by (cases "load_data_try w (url season_code) headers")
    (simp add: load_data_stmts_try load_data_except_eq)

lemma stmts_after_return:
  "fst (load_data_try w (url season_code) headers) = Returns v \<Longrightarrow>
   (\<exists>t. v = Some t) \<and>
   load_data_stmts w season_code = (Returns v, snd (load_data_try w (url season_code) headers))"
  by (cases "load_data_try w (url season_code) headers")
    (auto simp: load_data_stmts_try load_data_try_cases
      split: sum.splits list.splits option.splits)

lemma load_data_try_site_down:
  "load_data_try site_down u headers = (Raises (str ''Connection refused''), [Get u])"
  by (simp add: load_data_try_cases site_down_def)

lemma load_data_try_site_no_table:
  "load_data_try site_no_table u headers = (Raises (str ''No tables found''), [Get u, ReadHtml (str ''<p>'')])"
  by (simp add: load_data_try_cases site_no_table_def)

lemma load_data_try_site_without_frame:
  "load_data_try site_without_frame u headers =
     (Raises (str ''list index out of range''), [Get u, ReadHtml (str ''<p>'')])"
  by (simp add: load_data_try_cases site_without_frame_def)

lemma load_data_try_site_unconvertible:
  "load_data_try site_unconvertible u headers =
     (Raises (str ''Could not convert''), [Get u, ReadHtml (str ''<table>'')])"
  by (simp add: load_data_try_cases site_unconvertible_def)

lemma load_data_try_site_up:
  "load_data_try site_up u headers = (Returns (Some scenario_result), [Get u, ReadHtml (str ''<table>'')])"
  by (simp add: load_data_try_cases site_up_def normalize_scenario)

section \<open>Lemmas on the cache\<close>

lemma cache_data_hit:
  "cache s x = Some (v, ms) \<Longrightarrow> cache_data f x s = (v, s\<lparr>trace := trace s @ ms\<rparr>)"
  by (simp add: cache_data_def)

lemma cache_data_miss:
  "cache s x = None \<Longrightarrow>
   cache_data f x s =
     (fst (f x),
      s\<lparr>cache := (cache s)(x \<mapsto> (fst (f x), filter is_message (snd (f x)))),
        trace := trace s @ snd (f x)\<rparr>)"
  by (simp add: cache_data_def split_beta)

lemma cache_data_keeps:
  "cache s k = Some entry \<Longrightarrow> cache (snd (cache_data f x s)) k = Some entry"
  by (cases "cache s x") (auto simp: cache_data_hit cache_data_miss)

lemma calls_keeps: "cache s k = Some entry \<Longrightarrow> cache (calls cs s) k = Some entry"
proof (induction cs arbitrary: s)
  case Nil
  then show ?case by simp
next
  case (Cons c cs)
  obtain w x where c: "c = (w, x)"
    by (cases c)
  from Cons.prems have "cache (snd (cache_data (load_data w) x s)) k = Some entry"
    by (rule cache_data_keeps)
  then have "cache (calls cs (snd (cache_data (load_data w) x s))) k = Some entry"
    by (rule Cons.IH)
  then show ?case
    by (simp add: c)
qed

lemma load_data_messages:
  "(\<exists>t. fst (load_data w season_code) = Some t \<and>
        filter is_message (snd (load_data w season_code)) = []) \<or>
   (\<exists>e. fst (load_data w season_code) = None \<and>
        filter is_message (snd (load_data w season_code)) =
          [Error (str ''Erro ao carregar dados: '' @ e)])"
  using load_data_cases [of w season_code] by auto

lemma first_call_stores:
  assumes "cache s season_code = None"
    and "cache_data (load_data w) season_code s = (v, s1)"
  shows "cache s1 season_code = Some (v, filter is_message (snd (load_data w season_code))) \<and>
         v = fst (load_data w season_code)"
  using assms by (auto simp: cache_data_miss)

lemma first_call_site_down:
  "cache_data (load_data site_down) None fresh =
     (None,
      \<lparr>cache = [None \<mapsto> (None, [Error (str ''Erro ao carregar dados: '' @ str ''Connection refused'')])],
       trace = [Get (url None), Error (str ''Erro ao carregar dados: '' @ str ''Connection refused'')]\<rparr>)"
  by (simp add: cache_data_def fresh_def load_data_site_down)

section \<open>The URL of a season\<close>

lemma load_data_first_event: "\<exists>evs. snd (load_data w season_code) = Get (url season_code) # evs"
  by (simp add: load_data_def failed_def Let_def split: sum.splits list.splits option.splits)

text \<open>
  Claim C3. For every season code of the configured enumeration \<open>SEASONS\<close>, the
  request of \<open>load_data\<close> goes to \<open>url season_code\<close>. For the marker of the current
  season (None) that is the base listing URL, in which no season string of the
  enumeration occurs; for a season string \<open>s\<close> it is the template with \<open>s\<close> as the
  path segment and again at the head of the file name, so it contains
  \<open>/s/s-\<close>; for 2021-2022 that is \<open>.../2021-2022/2021-2022-Maiores-...\<close>.
\<close>

theorem url_of_configured_seasons:
  "\<forall>season_code \<in> set (map snd SEASONS).
     (\<forall>w. \<exists>evs. snd (load_data w season_code) = Get (url season_code) # evs) \<and>
     (season_code = None \<longrightarrow>
        url season_code =
          str ''https://fbref.com/pt/comps/Big5/Maiores-5-Ligas-Europeias-Estatisticas'' \<and>
        (\<forall>s. Some s \<in> set (map snd SEASONS) \<longrightarrow> \<not> contains s (url season_code))) \<and>
     (\<forall>s. season_code = Some s \<longrightarrow>
        url season_code =
          str ''https://fbref.com/pt/comps/Big5/'' @ s @ str ''/'' @ s @
          str ''-Maiores-5-Ligas-Europeias-Estatisticas'' \<and>
        contains (str ''/'' @ s @ str ''/'' @ s @ str ''-'') (url season_code))"
proof (intro ballI conjI allI impI)
  fix season_code w
  show "\<exists>evs. snd (load_data w season_code) = Get (url season_code) # evs"
    by (rule load_data_first_event)
next
  fix season_code :: "pystr option"
  assume "season_code = None"
  then show "url season_code =
      str ''https://fbref.com/pt/comps/Big5/Maiores-5-Ligas-Europeias-Estatisticas''"
    by (simp add: url_def truthy_def)
next
  fix season_code :: "pystr option" and s
  assume "season_code = None" and "Some s \<in> set (map snd SEASONS)"
  then show "\<not> contains s (url season_code)"
    by (auto simp add: SEASONS_def url_def truthy_def str_def)
next
  fix season_code :: "pystr option" and s
  assume "season_code \<in> set (map snd SEASONS)" and "season_code = Some s"
  then have "s \<noteq> []"
    by (auto simp add: SEASONS_def str_def)
  with \<open>season_code = Some s\<close> show "url season_code =
      str ''https://fbref.com/pt/comps/Big5/'' @ s @ str ''/'' @ s @
      str ''-Maiores-5-Ligas-Europeias-Estatisticas''"
    by (simp add: url_def truthy_def)
next
  fix season_code :: "pystr option" and s
  assume "season_code \<in> set (map snd SEASONS)" and "season_code = Some s"
  then show "contains (str ''/'' @ s @ str ''/'' @ s @ str ''-'') (url season_code)"
    by (auto simp add: SEASONS_def url_def truthy_def str_def)
qed

theorem url_of_configured_seasons_witness:
  "Some (str ''2021-2022'') \<in> set (map snd SEASONS) \<and>
   url (Some (str ''2021-2022'')) =
     str ''https://fbref.com/pt/comps/Big5/2021-2022/2021-2022-Maiores-5-Ligas-Europeias-Estatisticas'' \<and>
   contains (str ''/2021-2022/2021-2022-'') (url (Some (str ''2021-2022''))) \<and>
   None \<in> set (map snd SEASONS) \<and> \<not> contains (str ''2021-2022'') (url None)"
proof -
  have m: "Some (str ''2021-2022'') \<in> set (map snd SEASONS)"
    by (simp add: SEASONS_def)
  have n: "None \<in> set (map snd SEASONS)"
    by (simp add: SEASONS_def)
  from url_of_configured_seasons m
  have "url (Some (str ''2021-2022'')) = str ''https://fbref.com/pt/comps/Big5/'' @ str ''2021-2022'' @ str ''/'' @ str ''2021-2022'' @
            str ''-Maiores-5-Ligas-Europeias-Estatisticas'' \<and>
          contains (str ''/'' @ str ''2021-2022'' @ str ''/'' @ str ''2021-2022'' @ str ''-'') (url (Some (str ''2021-2022'')))"
    by fastforce
  moreover from url_of_configured_seasons n m have "\<not> contains (str ''2021-2022'') (url None)"
    by fastforce
  ultimately show ?thesis
    using m n by (simp add: str_def)
qed

section \<open>Header flattening\<close>

text \<open>
  Claim C4. A single-level header (an \<open>Index\<close>) passes through unchanged, so flattening
  a flattened header changes nothing. A multi-level header gives one name for each
  column: the levels of the column, each after the first preceded by one space, with the
  white space at both ends removed and nothing else (what is cut off at either end is
  white space only, and the name neither starts nor ends with white space). The header
  (Geral, MP), (Geral, V) flattens to Geral MP, Geral V. The rows are not touched.
\<close>

theorem flatten_header_spec:
  "flatten_header (Index labels) = labels \<and>
   flatten_header (Index (flatten_header h)) = flatten_header h \<and>
   length (flatten_header (MultiIndex cols)) = length cols \<and>
   (\<forall>i < length cols.
      (\<forall>level levels. cols ! i = level # levels \<longrightarrow>
         join (str '' '') (cols ! i) = level @ concat (map (\<lambda>l. str '' '' @ l) levels)) \<and>
      (\<exists>pre post.
         join (str '' '') (cols ! i) = pre @ flatten_header (MultiIndex cols) ! i @ post \<and>
         (\<forall>c \<in> set pre. isspace c) \<and> (\<forall>c \<in> set post. isspace c)) \<and>
      (flatten_header (MultiIndex cols) ! i \<noteq> [] \<longrightarrow>
         \<not> isspace (hd (flatten_header (MultiIndex cols) ! i)) \<and>
         \<not> isspace (last (flatten_header (MultiIndex cols) ! i)))) \<and>
   flatten_header (MultiIndex [[str ''Geral'', str ''MP''], [str ''Geral'', str ''V'']]) =
     [str ''Geral MP'', str ''Geral V''] \<and>
   columns (flatten df) = flatten_header (header df) \<and> rows (flatten df) = body df"
proof (intro conjI allI impI)
  show "flatten_header (Index labels) = labels"
    by (simp add: flatten_header_def)
  show "flatten_header (Index (flatten_header h)) = flatten_header h"
    by (simp add: flatten_header_def)
  show "length (flatten_header (MultiIndex cols)) = length cols"
    by (simp add: flatten_header_def)
  show "flatten_header (MultiIndex [[str ''Geral'', str ''MP''], [str ''Geral'', str ''V'']]) =
     [str ''Geral MP'', str ''Geral V'']"
    by (simp add: flatten_header_def strip_def isspace_def str_def)
  show "columns (flatten df) = flatten_header (header df)"
    by (simp add: flatten_def)
  show "rows (flatten df) = body df"
    by (simp add: flatten_def)
next
  fix i level levels
  assume "i < length cols" and "cols ! i = level # levels"
  then show "join (str '' '') (cols ! i) = level @ concat (map (\<lambda>l. str '' '' @ l) levels)"
    by (simp only: join_levels)
next
  fix i
  assume i: "i < length cols"
  then have nth: "flatten_header (MultiIndex cols) ! i = strip (join (str '' '') (cols ! i))"
    by (simp add: flatten_header_def)
  show "\<exists>pre post.
         join (str '' '') (cols ! i) = pre @ flatten_header (MultiIndex cols) ! i @ post \<and>
         (\<forall>c \<in> set pre. isspace c) \<and> (\<forall>c \<in> set post. isspace c)"
    unfolding nth by (rule strip_decompose)
  assume "flatten_header (MultiIndex cols) ! i \<noteq> []"
  then have ne: "strip (join (str '' '') (cols ! i)) \<noteq> []"
    unfolding nth .
  show "\<not> isspace (hd (flatten_header (MultiIndex cols) ! i))"
    unfolding nth using strip_edges [OF ne] by (rule conjunct1)
  show "\<not> isspace (last (flatten_header (MultiIndex cols) ! i))"
    unfolding nth using strip_edges [OF ne] by (rule conjunct2)
qed

theorem flatten_header_spec_witness:
  "(0::nat) < length [[str '' Geral'', str ''MP '']] \<and>
   [[str '' Geral'', str ''MP '']] ! 0 = str '' Geral'' # [str ''MP ''] \<and>
   join (str '' '') [str '' Geral'', str ''MP ''] = str '' Geral MP '' \<and>
   flatten_header (MultiIndex [[str '' Geral'', str ''MP '']]) ! 0 = str ''Geral MP'' \<and>
   flatten_header (MultiIndex [[str '' Geral'', str ''MP '']]) ! 0 \<noteq> [] \<and>
   \<not> isspace (hd (flatten_header (MultiIndex [[str '' Geral'', str ''MP '']]) ! 0)) \<and>
   \<not> isspace (last (flatten_header (MultiIndex [[str '' Geral'', str ''MP '']]) ! 0))"
proof -
  have len: "(0::nat) < length [[str '' Geral'', str ''MP '']]"
    by simp
  have val: "flatten_header (MultiIndex [[str '' Geral'', str ''MP '']]) ! 0 = str ''Geral MP''"
    by (simp add: flatten_header_def strip_def isspace_def str_def)
  have ne: "flatten_header (MultiIndex [[str '' Geral'', str ''MP '']]) ! 0 \<noteq> []"
    unfolding val by (simp add: str_def)
  from flatten_header_spec [where cols = "[[str '' Geral'', str ''MP '']]"] len ne
  have "\<not> isspace (hd (flatten_header (MultiIndex [[str '' Geral'', str ''MP '']]) ! 0)) \<and>
      \<not> isspace (last (flatten_header (MultiIndex [[str '' Geral'', str ''MP '']]) ! 0))"
    by blast
  moreover have "join (str '' '') [str '' Geral'', str ''MP ''] = str '' Geral MP ''"
    by (simp add: str_def)
  ultimately show ?thesis
    using len val ne by simp
qed

section \<open>Column translation\<close>

text \<open>
  Claim C5. Renaming with \<open>COLUMN_TRANSLATIONS\<close> is a pure rename: the set of column
  names afterwards is the image of the names before (the entry of the table where there
  is one, the name itself otherwise), there are as many columns as before and each keeps
  its position, and the rows are the same, so their number too. The column set of the
  table \<open>load_data\<close> returns is that image of the flattened header of the first table
  of the document.
\<close>

theorem rename_pure:
  "set (columns (rename COLUMN_TRANSLATIONS df)) =
     (\<lambda>c. case map_of COLUMN_TRANSLATIONS c of Some t \<Rightarrow> t | None \<Rightarrow> c) ` set (columns df) \<and>
   length (columns (rename COLUMN_TRANSLATIONS df)) = length (columns df) \<and>
   (\<forall>i < length (columns df).
      columns (rename COLUMN_TRANSLATIONS df) ! i =
        (case map_of COLUMN_TRANSLATIONS (columns df ! i) of
           Some t \<Rightarrow> t | None \<Rightarrow> columns df ! i)) \<and>
   rows (rename COLUMN_TRANSLATIONS df) = rows df \<and>
   (\<forall>w season_code t evs r raw rest.
      load_data w season_code = (Some t, evs) \<longrightarrow>
      http_get w (url season_code) headers = Inr r \<longrightarrow>
      read_html w (response_text r) = Inr (raw # rest) \<longrightarrow>
      set (columns t) =
        (\<lambda>c. case map_of COLUMN_TRANSLATIONS c of Some t \<Rightarrow> t | None \<Rightarrow> c) `
          set (flatten_header (header raw)))"
proof (intro conjI allI impI)
  show "set (columns (rename COLUMN_TRANSLATIONS df)) =
     (\<lambda>c. case map_of COLUMN_TRANSLATIONS c of Some t \<Rightarrow> t | None \<Rightarrow> c) ` set (columns df)"
    by (simp add: rename_def translate_def [abs_def])
  show "length (columns (rename COLUMN_TRANSLATIONS df)) = length (columns df)"
    by (simp add: rename_def)
  show "rows (rename COLUMN_TRANSLATIONS df) = rows df"
    by (simp add: rename_def)
next
  fix i
  assume "i < length (columns df)"
  then show "columns (rename COLUMN_TRANSLATIONS df) ! i =
        (case map_of COLUMN_TRANSLATIONS (columns df ! i) of
           Some t \<Rightarrow> t | None \<Rightarrow> columns df ! i)"
    by (simp add: rename_def translate_def)
next
  fix w season_code t evs r raw rest
  assume ok: "load_data w season_code = (Some t, evs)"
    and get: "http_get w (url season_code) headers = Inr r"
    and parse: "read_html w (response_text r) = Inr (raw # rest)"
  from load_data_Some [OF ok] get parse
  have "t = drop_nulls (from_pandas (rename COLUMN_TRANSLATIONS (flatten raw)))"
    by auto
  then have "set (columns t) = set (columns (rename COLUMN_TRANSLATIONS (flatten raw)))"
    by (simp only: drop_nulls_columns from_pandas_columns)
  then show "set (columns t) =
        (\<lambda>c. case map_of COLUMN_TRANSLATIONS c of Some t \<Rightarrow> t | None \<Rightarrow> c) `
          set (flatten_header (header raw))"
    by (simp add: rename_def flatten_def translate_def [abs_def])
qed

theorem rename_pure_witness:
  "(0::nat) < length (columns \<lparr>columns = [str ''MP'', str ''Equipe''], rows = [[Num 38, Str (str ''Arsenal'')]]\<rparr>) \<and>
   columns (rename COLUMN_TRANSLATIONS
      \<lparr>columns = [str ''MP'', str ''Equipe''], rows = [[Num 38, Str (str ''Arsenal'')]]\<rparr>) ! 0 =
     str ''Jogos Disputados'' \<and>
   load_data site_up None = (Some scenario_result, [Get (url None), ReadHtml (str ''<table>'')]) \<and>
   http_get site_up (url None) headers = Inr \<lparr>status_code = 200, response_text = str ''<table>''\<rparr> \<and>
   read_html site_up (str ''<table>'') = Inr [scenario_table] \<and>
   set (columns scenario_result) = {str ''Jogos Disputados'', str ''Vit'' @ [243] @ str ''rias''}"
proof -
  let ?df = "\<lparr>columns = [str ''MP'', str ''Equipe''], rows = [[Num 38, Str (str ''Arsenal'')]]\<rparr>"
  have len: "(0::nat) < length (columns ?df)"
    by simp
  have get: "http_get site_up (url None) headers =
      Inr \<lparr>status_code = 200, response_text = str ''<table>''\<rparr>"
    by (simp add: site_up_def)
  have parse: "read_html site_up (response_text \<lparr>status_code = 200, response_text = str ''<table>''\<rparr>) =
      Inr [scenario_table]"
    by (simp add: site_up_def)
  from rename_pure [of ?df] len
  have "columns (rename COLUMN_TRANSLATIONS ?df) ! 0 =
      (case map_of COLUMN_TRANSLATIONS (columns ?df ! 0) of Some t \<Rightarrow> t | None \<Rightarrow> columns ?df ! 0)"
    by blast
  then have first: "columns (rename COLUMN_TRANSLATIONS ?df) ! 0 = str ''Jogos Disputados''"
    by (simp add: COLUMN_TRANSLATIONS_def str_def)
  from rename_pure [of ?df]
  have "\<forall>w season_code t evs r raw rest.
      load_data w season_code = (Some t, evs) \<longrightarrow>
      http_get w (url season_code) headers = Inr r \<longrightarrow>
      read_html w (response_text r) = Inr (raw # rest) \<longrightarrow>
      set (columns t) =
        (\<lambda>c. case map_of COLUMN_TRANSLATIONS c of Some t \<Rightarrow> t | None \<Rightarrow> c) `
          set (flatten_header (header raw))"
    by blast
  from this [rule_format, OF load_data_site_up get parse]
  have "set (columns scenario_result) =
      (\<lambda>c. case map_of COLUMN_TRANSLATIONS c of Some t \<Rightarrow> t | None \<Rightarrow> c) `
          set (flatten_header (header scenario_table))" .
  then have cols: "set (columns scenario_result) =
      {str ''Jogos Disputados'', str ''Vit'' @ [243] @ str ''rias''}"
    by (simp add: scenario_table_def flatten_header_def COLUMN_TRANSLATIONS_def str_def)
  from len first load_data_site_up get parse cols show ?thesis
    by simp
qed

section \<open>Null-row elimination\<close>

text \<open>
  Claim C6. \<open>drop_nulls\<close> applied twice is \<open>drop_nulls\<close> applied once; it never
  yields more rows than it was given, and it yields as many exactly when no row of the
  input has a missing value.
\<close>

theorem drop_nulls_idempotent_monotone:
  "drop_nulls (drop_nulls df) = drop_nulls df \<and>
   length (rows (drop_nulls df)) \<le> length (rows df) \<and>
   (length (rows (drop_nulls df)) = length (rows df) \<longleftrightarrow>
      (\<forall>r \<in> set (rows df). Null \<notin> set r))"
proof (intro conjI)
  show "drop_nulls (drop_nulls df) = drop_nulls df"
    by (simp add: drop_nulls_def)
  show "length (rows (drop_nulls df)) \<le> length (rows df)"
    by (simp add: drop_nulls_def)
  show "length (rows (drop_nulls df)) = length (rows df) \<longleftrightarrow>
      (\<forall>r \<in> set (rows df). Null \<notin> set r)"
    by (simp add: drop_nulls_def has_null_def length_filter_eq_iff)
qed

theorem drop_nulls_idempotent_monotone_witness:
  "list_all (\<lambda>r. Null \<notin> set r) (rows scenario_result) \<and>
   length (rows (drop_nulls scenario_result)) = length (rows scenario_result) \<and>
   \<not> list_all (\<lambda>r. Null \<notin> set r) (rows (flatten scenario_table)) \<and>
   length (rows (drop_nulls (flatten scenario_table))) < length (rows (flatten scenario_table))"
proof -
  have clean: "\<forall>r \<in> set (rows scenario_result). Null \<notin> set r"
    by (simp add: scenario_result_def)
  have dirty: "\<not> (\<forall>r \<in> set (rows (flatten scenario_table)). Null \<notin> set r)"
    by (simp add: flatten_def scenario_table_def)
  from drop_nulls_idempotent_monotone [of scenario_result] clean
  have "length (rows (drop_nulls scenario_result)) = length (rows scenario_result)"
    by blast
  moreover from drop_nulls_idempotent_monotone [of "flatten scenario_table"] dirty
  have "length (rows (drop_nulls (flatten scenario_table))) < length (rows (flatten scenario_table))"
    by (metis le_neq_implies_less)
  ultimately show ?thesis
    using clean dirty by (simp add: list_all_iff)
qed

section \<open>Rows with a missing value\<close>

text \<open>
  Claim C7, as stated, fails on the scenario of the specification. The page of
  \<open>site_up\<close> has the row of 10 and an em dash; the dash is a text, not a missing value,
  nothing in \<open>load_data\<close> parses a column as numbers, and the row is in the table
  \<open>load_data\<close> returns.
\<close>

theorem scenario_row_kept:
  "[Num 10, Str [8212]] \<in> set (body scenario_table) \<and>
   fst (load_data site_up None) = Some scenario_result \<and>
   [Num 10, Str [8212]] \<in> set (rows scenario_result)"
  by (simp add: load_data_site_up scenario_table_def scenario_result_def)

text \<open>
  Claim C7, amended. \<open>drop_nulls\<close> keeps exactly the rows without a null, each whole,
  so no row of a table \<open>load_data\<close> returns has a null. When the translated column
  names of the first table of the document are distinct and each of its rows has one
  cell for each column, the rows of the result are the rows of that table without a
  null, unchanged and in their order: every row of the document with at least one null
  in any column is removed entirely, and every other row is kept as it is. Without these
  two conditions the same holds of the rows of the converted frame, in which columns of
  one name are merged.
\<close>

theorem null_rows_removed:
  "set (rows (drop_nulls df)) = {row \<in> set (rows df). Null \<notin> set row} \<and>
   (\<forall>w season_code t evs.
      load_data w season_code = (Some t, evs) \<longrightarrow> (\<forall>row \<in> set (rows t). Null \<notin> set row)) \<and>
   (\<forall>w season_code t evs r raw rest.
      load_data w season_code = (Some t, evs) \<longrightarrow>
      http_get w (url season_code) headers = Inr r \<longrightarrow>
      read_html w (response_text r) = Inr (raw # rest) \<longrightarrow>
      distinct (map (translate COLUMN_TRANSLATIONS) (flatten_header (header raw))) \<longrightarrow>
      (\<forall>row \<in> set (body raw). length row = length (flatten_header (header raw))) \<longrightarrow>
      rows t = filter (\<lambda>row. Null \<notin> set row) (body raw) \<and>
      set (rows t) = {row \<in> set (body raw). Null \<notin> set row}) \<and>
   (\<forall>w season_code t evs r raw rest.
      load_data w season_code = (Some t, evs) \<longrightarrow>
      http_get w (url season_code) headers = Inr r \<longrightarrow>
      read_html w (response_text r) = Inr (raw # rest) \<longrightarrow>
      set (rows t) =
        {row \<in> set (rows (from_pandas (rename COLUMN_TRANSLATIONS (flatten raw)))).
           Null \<notin> set row})"
proof -
  have a: "set (rows (drop_nulls df)) = {row \<in> set (rows df). Null \<notin> set row}"
    by (simp add: drop_nulls_rows)
  have b: "\<forall>row \<in> set (rows t). Null \<notin> set row"
    if "load_data w season_code = (Some t, evs)" for w season_code t evs
  proof -
    from that obtain d where "t = drop_nulls d"
      using load_data_Some by blast
    then show ?thesis
      by (simp add: drop_nulls_rows)
  qed
  have c: "rows t = filter (\<lambda>row. Null \<notin> set row) (body raw) \<and>
      set (rows t) = {row \<in> set (body raw). Null \<notin> set row}"
    if "load_data w season_code = (Some t, evs)"
      and "http_get w (url season_code) headers = Inr r"
      and "read_html w (response_text r) = Inr (raw # rest)"
      and "distinct (map (translate COLUMN_TRANSLATIONS) (flatten_header (header raw)))"
      and "\<forall>row \<in> set (body raw). length row = length (flatten_header (header raw))"
    for w season_code t evs r raw rest
  proof -
    from that have "rows t = filter (\<lambda>row. Null \<notin> set row) (body raw)"
      by (rule load_data_rows_plain)
    then show ?thesis
      by simp
  qed
  have d: "set (rows t) =
        {row \<in> set (rows (from_pandas (rename COLUMN_TRANSLATIONS (flatten raw)))).
           Null \<notin> set row}"
    if "load_data w season_code = (Some t, evs)"
      and "http_get w (url season_code) headers = Inr r"
      and "read_html w (response_text r) = Inr (raw # rest)"
    for w season_code t evs r raw rest
  proof -
    from that have "t = drop_nulls (from_pandas (rename COLUMN_TRANSLATIONS (flatten raw)))"
      by (rule load_data_rows)
    then show ?thesis
      by (simp add: drop_nulls_rows)
  qed
  from a b c d show ?thesis
    by blast
qed

theorem null_rows_removed_witness:
  "load_data site_up None = (Some scenario_result, [Get (url None), ReadHtml (str ''<table>'')]) \<and>
   http_get site_up (url None) headers = Inr \<lparr>status_code = 200, response_text = str ''<table>''\<rparr> \<and>
   read_html site_up (str ''<table>'') = Inr [scenario_table] \<and>
   distinct (map (translate COLUMN_TRANSLATIONS) (flatten_header (header scenario_table))) \<and>
   list_all (\<lambda>row. length row = length (flatten_header (header scenario_table)))
     (body scenario_table) \<and>
   body scenario_table = [[Num 12, Str (str ''8'')], [Num 10, Str [8212]], [Num 11, Null]] \<and>
   rows scenario_result = filter (\<lambda>row. Null \<notin> set row) (body scenario_table) \<and>
   rows scenario_result = [[Num 12, Str (str ''8'')], [Num 10, Str [8212]]] \<and>
   [Num 11, Null] \<notin> set (rows scenario_result) \<and>
   list_all (\<lambda>row. Null \<notin> set row) (rows scenario_result)"
proof -
  have get: "http_get site_up (url None) headers =
      Inr \<lparr>status_code = 200, response_text = str ''<table>''\<rparr>"
    by (simp add: site_up_def)
  have parse: "read_html site_up (response_text \<lparr>status_code = 200, response_text = str ''<table>''\<rparr>) =
      Inr [scenario_table]"
    by (simp add: site_up_def)
  have d: "distinct (map (translate COLUMN_TRANSLATIONS) (flatten_header (header scenario_table)))"
    by (simp add: scenario_table_def flatten_header_def translate_def COLUMN_TRANSLATIONS_def str_def)
  have l: "\<forall>row \<in> set (body scenario_table). length row = length (flatten_header (header scenario_table))"
    by (simp add: scenario_table_def flatten_header_def)
  from null_rows_removed [of scenario_result]
  have all: "\<forall>w season_code t evs.
      load_data w season_code = (Some t, evs) \<longrightarrow> (\<forall>row \<in> set (rows t). Null \<notin> set row)"
    and eq: "\<forall>w season_code t evs r raw rest.
      load_data w season_code = (Some t, evs) \<longrightarrow>
      http_get w (url season_code) headers = Inr r \<longrightarrow>
      read_html w (response_text r) = Inr (raw # rest) \<longrightarrow>
      distinct (map (translate COLUMN_TRANSLATIONS) (flatten_header (header raw))) \<longrightarrow>
      (\<forall>row \<in> set (body raw). length row = length (flatten_header (header raw))) \<longrightarrow>
      rows t = filter (\<lambda>row. Null \<notin> set row) (body raw) \<and>
      set (rows t) = {row \<in> set (body raw). Null \<notin> set row}"
    by blast+
  from all [rule_format, OF load_data_site_up]
  have none: "\<forall>row \<in> set (rows scenario_result). Null \<notin> set row"
    by blast
  from eq [rule_format, OF load_data_site_up get parse d l [rule_format]]
  have rows_eq: "rows scenario_result = filter (\<lambda>row. Null \<notin> set row) (body scenario_table)"
    by (rule conjunct1)
  have b: "body scenario_table = [[Num 12, Str (str ''8'')], [Num 10, Str [8212]], [Num 11, Null]]"
    by (simp add: scenario_table_def)
  have explicit: "rows scenario_result = [[Num 12, Str (str ''8'')], [Num 10, Str [8212]]]"
    unfolding rows_eq b by simp
  have gone: "[Num 11, Null] \<notin> set (rows scenario_result)"
    unfolding explicit by simp
  from load_data_site_up get parse d l b rows_eq explicit gone none show ?thesis
    by (simp add: list_all_iff)
qed

section \<open>Row order\<close>

text \<open>
  Claim C9. When \<open>load_data\<close> returns a table, it is made from the first table of the
  document; flattening and renaming leave the rows as they are, the conversion maps each
  row in its place, and \<open>drop_nulls\<close> only removes rows. So the rows of the result are
  a subsequence of the converted rows of the document, in the order of the document;
  when the translated column names are distinct and every row has one cell for each
  column, they are the rows of the document without a null, in the order of the
  document.
\<close>

theorem row_order_preserved:
  "load_data w season_code = (Some t, evs) \<Longrightarrow>
   http_get w (url season_code) headers = Inr r \<Longrightarrow>
   read_html w (response_text r) = Inr (raw # rest) \<Longrightarrow>
   rows (flatten raw) = body raw \<and>
   rows (rename COLUMN_TRANSLATIONS (flatten raw)) = body raw \<and>
   rows (from_pandas (rename COLUMN_TRANSLATIONS (flatten raw))) =
     map (\<lambda>row. map snd (dict_of
        (zip (map (translate COLUMN_TRANSLATIONS) (flatten_header (header raw))) row))) (body raw) \<and>
   subseq (rows t)
     (map (\<lambda>row. map snd (dict_of
        (zip (map (translate COLUMN_TRANSLATIONS) (flatten_header (header raw))) row))) (body raw)) \<and>
   (distinct (map (translate COLUMN_TRANSLATIONS) (flatten_header (header raw))) \<and>
    (\<forall>row \<in> set (body raw). length row = length (flatten_header (header raw))) \<longrightarrow>
      subseq (rows t) (body raw) \<and> rows t = filter (\<lambda>row. Null \<notin> set row) (body raw))"
proof -
  assume "load_data w season_code = (Some t, evs)"
    and "http_get w (url season_code) headers = Inr r"
    and "read_html w (response_text r) = Inr (raw # rest)"
  then have t: "t = drop_nulls (from_pandas (rename COLUMN_TRANSLATIONS (flatten raw)))"
    by (rule load_data_rows)
  let ?df = "rename COLUMN_TRANSLATIONS (flatten raw)"
  let ?cols = "map (translate COLUMN_TRANSLATIONS) (flatten_header (header raw))"
  let ?f = "\<lambda>row. map snd (dict_of (zip ?cols row))"
  have cols: "columns ?df = ?cols"
    by (simp add: rename_def flatten_def)
  have rows0: "rows (flatten raw) = body raw"
    by (simp add: flatten_def)
  have rows1: "rows ?df = body raw"
    by (simp add: rename_def flatten_def)
  have rows2: "rows (from_pandas ?df) = map ?f (body raw)"
    by (simp only: from_pandas_rows cols rows1)
  have rows3: "rows t = filter (\<lambda>row. Null \<notin> set row) (map ?f (body raw))"
    by (simp only: t drop_nulls_rows rows2)
  have sub: "subseq (rows t) (map ?f (body raw))"
    unfolding rows3 by (rule subseq_filter_left)
  have plain: "subseq (rows t) (body raw) \<and> rows t = filter (\<lambda>row. Null \<notin> set row) (body raw)"
    if d: "distinct ?cols" and l: "\<forall>row \<in> set (body raw). length row = length (flatten_header (header raw))"
  proof -
    have "map ?f (body raw) = body raw"
      using d l by (simp add: dict_of_distinct map_idI)
    with rows3 have "rows t = filter (\<lambda>row. Null \<notin> set row) (body raw)"
      by simp
    then show ?thesis
      by (simp add: subseq_filter_left)
  qed
  from rows0 rows1 rows2 sub plain show ?thesis
    by blast
qed

theorem row_order_preserved_witness:
  "load_data site_up None = (Some scenario_result, [Get (url None), ReadHtml (str ''<table>'')]) \<and>
   http_get site_up (url None) headers = Inr \<lparr>status_code = 200, response_text = str ''<table>''\<rparr> \<and>
   read_html site_up (str ''<table>'') = Inr [scenario_table] \<and>
   distinct (map (translate COLUMN_TRANSLATIONS) (flatten_header (header scenario_table))) \<and>
   list_all (\<lambda>row. length row = length (flatten_header (header scenario_table)))
     (body scenario_table) \<and>
   subseq (rows scenario_result) (body scenario_table) \<and>
   rows scenario_result = [[Num 12, Str (str ''8'')], [Num 10, Str [8212]]] \<and>
   body scenario_table = [[Num 12, Str (str ''8'')], [Num 10, Str [8212]], [Num 11, Null]]"
proof -
  have get: "http_get site_up (url None) headers =
      Inr \<lparr>status_code = 200, response_text = str ''<table>''\<rparr>"
    by (simp add: site_up_def)
  have parse: "read_html site_up (response_text \<lparr>status_code = 200, response_text = str ''<table>''\<rparr>) =
      Inr [scenario_table]"
    by (simp add: site_up_def)
  have d: "distinct (map (translate COLUMN_TRANSLATIONS) (flatten_header (header scenario_table)))"
    by (simp add: scenario_table_def flatten_header_def translate_def COLUMN_TRANSLATIONS_def str_def)
  have l: "\<forall>row \<in> set (body scenario_table). length row = length (flatten_header (header scenario_table))"
    by (simp add: scenario_table_def flatten_header_def)
  from row_order_preserved [OF load_data_site_up get parse] d l
  have "subseq (rows scenario_result) (body scenario_table)"
    by blast
  with load_data_site_up get parse d l show ?thesis
    by (simp add: scenario_result_def scenario_table_def list_all_iff)
qed

section \<open>Failures end in a message and None\<close>

text \<open>
  Claim C10. For every environment and every season code (None or a string, as the
  specification has it), \<open>load_data_stmts\<close> returns: the outcome is never \<open>Raises\<close>,
  and the value and the events are those of \<open>load_data\<close>. The body of the \<open>try\<close> does
  raise, exactly when the request raises, the parser raises, the list of tables is empty
  or the conversion raises; every such exception is caught: the function shows the
  message \<open>Erro ao carregar dados: \<close> with the text of the exception after the events of
  the body, and returns None. When the body returns, the function returns its value,
  which is a table, and shows no message. The exceptions are those of class Exception,
  the class the handler names.
\<close>

theorem load_data_total:
  "(\<exists>v events. load_data_stmts w season_code = (Returns v, events)) \<and>
   load_data_stmts w season_code =
     (Returns (fst (load_data w season_code)), snd (load_data w season_code)) \<and>
   (\<forall>e. fst (load_data_try w (url season_code) headers) = Raises e \<longleftrightarrow>
      http_get w (url season_code) headers = Inl e \<or>
      (\<exists>r. http_get w (url season_code) headers = Inr r \<and>
         (read_html w (response_text r) = Inl e \<or>
          read_html w (response_text r) = Inr [] \<and> e = str ''list index out of range'' \<or>
          (\<exists>raw rest. read_html w (response_text r) = Inr (raw # rest) \<and>
             from_pandas_raises w (rename COLUMN_TRANSLATIONS (flatten raw)) = Some e)))) \<and>
   (\<forall>e. fst (load_data_try w (url season_code) headers) = Raises e \<longrightarrow>
      load_data_stmts w season_code =
        (Returns None,
         snd (load_data_try w (url season_code) headers) @
           [Error (str ''Erro ao carregar dados: '' @ e)])) \<and>
   (\<forall>v. fst (load_data_try w (url season_code) headers) = Returns v \<longrightarrow>
      (\<exists>t. v = Some t) \<and>
      load_data_stmts w season_code = (Returns v, snd (load_data_try w (url season_code) headers)))"
proof (intro conjI allI impI)
  show "\<exists>v events. load_data_stmts w season_code = (Returns v, events)"
    using load_data_stmts_eq by blast
  show "load_data_stmts w season_code =
     (Returns (fst (load_data w season_code)), snd (load_data w season_code))"
    by (rule load_data_stmts_eq)
next
  fix e
  show "fst (load_data_try w (url season_code) headers) = Raises e \<longleftrightarrow>
      http_get w (url season_code) headers = Inl e \<or>
      (\<exists>r. http_get w (url season_code) headers = Inr r \<and>
         (read_html w (response_text r) = Inl e \<or>
          read_html w (response_text r) = Inr [] \<and> e = str ''list index out of range'' \<or>
          (\<exists>raw rest. read_html w (response_text r) = Inr (raw # rest) \<and>
             from_pandas_raises w (rename COLUMN_TRANSLATIONS (flatten raw)) = Some e)))"
    by (rule try_raises)
next
  fix e
  assume "fst (load_data_try w (url season_code) headers) = Raises e"
  then show "load_data_stmts w season_code =
        (Returns None,
         snd (load_data_try w (url season_code) headers) @
           [Error (str ''Erro ao carregar dados: '' @ e)])"
    by (rule stmts_after_raise)
next
  fix v
  assume v: "fst (load_data_try w (url season_code) headers) = Returns v"
  show "\<exists>t. v = Some t"
    using stmts_after_return [OF v] by (rule conjunct1)
  show "load_data_stmts w season_code = (Returns v, snd (load_data_try w (url season_code) headers))"
    using stmts_after_return [OF v] by (rule conjunct2)
qed

theorem load_data_total_witness:
  "load_data_try site_down (url None) headers = (Raises (str ''Connection refused''), [Get (url None)]) \<and>
   load_data_stmts site_down None =
     (Returns None, [Get (url None), Error (str ''Erro ao carregar dados: Connection refused'')]) \<and>
   load_data_try site_no_table (url None) headers =
     (Raises (str ''No tables found''), [Get (url None), ReadHtml (str ''<p>'')]) \<and>
   load_data_stmts site_no_table None =
     (Returns None, [Get (url None), ReadHtml (str ''<p>''),
                     Error (str ''Erro ao carregar dados: No tables found'')]) \<and>
   load_data_try site_without_frame (url None) headers =
     (Raises (str ''list index out of range''), [Get (url None), ReadHtml (str ''<p>'')]) \<and>
   load_data_stmts site_without_frame None =
     (Returns None, [Get (url None), ReadHtml (str ''<p>''),
                     Error (str ''Erro ao carregar dados: list index out of range'')]) \<and>
   load_data_try site_unconvertible (url None) headers =
     (Raises (str ''Could not convert''), [Get (url None), ReadHtml (str ''<table>'')]) \<and>
   load_data_stmts site_unconvertible None =
     (Returns None, [Get (url None), ReadHtml (str ''<table>''),
                     Error (str ''Erro ao carregar dados: Could not convert'')]) \<and>
   load_data_try site_up (url None) headers =
     (Returns (Some scenario_result), [Get (url None), ReadHtml (str ''<table>'')]) \<and>
   load_data_stmts site_up None =
     (Returns (Some scenario_result), [Get (url None), ReadHtml (str ''<table>'')])"
proof -
  have t1: "fst (load_data_try site_down (url None) headers) = Raises (str ''Connection refused'')"
    and t2: "fst (load_data_try site_no_table (url None) headers) = Raises (str ''No tables found'')"
    and t3: "fst (load_data_try site_without_frame (url None) headers) =
      Raises (str ''list index out of range'')"
    and t4: "fst (load_data_try site_unconvertible (url None) headers) = Raises (str ''Could not convert'')"
    and t5: "fst (load_data_try site_up (url None) headers) = Returns (Some scenario_result)"
    by (simp_all add: load_data_try_site_down load_data_try_site_no_table
        load_data_try_site_without_frame load_data_try_site_unconvertible load_data_try_site_up)
  have r1: "load_data_stmts site_down None =
      (Returns None, snd (load_data_try site_down (url None) headers) @
         [Error (str ''Erro ao carregar dados: '' @ str ''Connection refused'')])"
    using load_data_total [of site_down None] t1 by blast
  have r2: "load_data_stmts site_no_table None =
      (Returns None, snd (load_data_try site_no_table (url None) headers) @
         [Error (str ''Erro ao carregar dados: '' @ str ''No tables found'')])"
    using load_data_total [of site_no_table None] t2 by blast
  have r3: "load_data_stmts site_without_frame None =
      (Returns None, snd (load_data_try site_without_frame (url None) headers) @
         [Error (str ''Erro ao carregar dados: '' @ str ''list index out of range'')])"
    using load_data_total [of site_without_frame None] t3 by blast
  have r4: "load_data_stmts site_unconvertible None =
      (Returns None, snd (load_data_try site_unconvertible (url None) headers) @
         [Error (str ''Erro ao carregar dados: '' @ str ''Could not convert'')])"
    using load_data_total [of site_unconvertible None] t4 by blast
  have r5: "load_data_stmts site_up None =
      (Returns (Some scenario_result), snd (load_data_try site_up (url None) headers))"
    using load_data_total [of site_up None] t5 by blast
  from r1 r2 r3 r4 r5 show ?thesis
    by (simp add: load_data_try_site_down load_data_try_site_no_table
        load_data_try_site_without_frame load_data_try_site_unconvertible load_data_try_site_up
        str_def)
qed

section \<open>Fetch failures and parse failures\<close>

text \<open>
  Claim C8, as stated, fails for a status that is not 2xx. \<open>load_data\<close> never looks at
  the status code of the response: the page of \<open>site_not_found\<close> comes with status 404
  and holds a table, and \<open>load_data\<close> returns that table, with no message.
\<close>

theorem not_found_page_is_parsed:
  "http_get site_not_found (url None) headers =
     Inr \<lparr>status_code = 404, response_text = str ''<table>''\<rparr> \<and>
   load_data site_not_found None =
     (Some scenario_result, [Get (url None), ReadHtml (str ''<table>'')])"
  unfolding load_data_site_not_found by (simp add: site_not_found_def)

text \<open>
  Claim C8, amended. An exception of the request (a network failure, a transport
  exception) and an exception of the parser end the same way: \<open>load_data\<close> returns None
  and shows the one message \<open>Erro ao carregar dados: \<close> followed by the text of the
  exception, whichever of the two raised it. The status code of a response makes no
  difference to what \<open>load_data\<close> returns.
\<close>

theorem failures_alike:
  "(\<forall>e. http_get w (url season_code) headers = Inl e \<or>
        (\<exists>r. http_get w (url season_code) headers = Inr r \<and>
             read_html w (response_text r) = Inl e) \<longrightarrow>
      fst (load_data w season_code) = None \<and>
      filter is_message (snd (load_data w season_code)) =
        [Error (str ''Erro ao carregar dados: '' @ e)]) \<and>
   (\<forall>code.
      load_data
        (w\<lparr>http_get :=
             \<lambda>u h. map_sum (\<lambda>e. e) (\<lambda>r. r\<lparr>status_code := code\<rparr>) (http_get w u h)\<rparr>)
        season_code =
      load_data w season_code)"
proof (rule conjI)
  show "\<forall>e. http_get w (url season_code) headers = Inl e \<or>
        (\<exists>r. http_get w (url season_code) headers = Inr r \<and>
             read_html w (response_text r) = Inl e) \<longrightarrow>
      fst (load_data w season_code) = None \<and>
      filter is_message (snd (load_data w season_code)) =
        [Error (str ''Erro ao carregar dados: '' @ e)]"
    by (auto simp: load_data_get_raises load_data_read_html_raises)
  show "\<forall>code.
      load_data
        (w\<lparr>http_get :=
             \<lambda>u h. map_sum (\<lambda>e. e) (\<lambda>r. r\<lparr>status_code := code\<rparr>) (http_get w u h)\<rparr>)
        season_code =
      load_data w season_code"
    by (rule allI) (rule load_data_status_code)
qed

theorem failures_alike_witness:
  "http_get site_down (url None) headers = Inl (str ''Connection refused'') \<and>
   fst (load_data site_down None) = None \<and>
   filter is_message (snd (load_data site_down None)) =
     [Error (str ''Erro ao carregar dados: Connection refused'')] \<and>
   http_get site_no_table (url None) headers =
     Inr \<lparr>status_code = 200, response_text = str ''<p>''\<rparr> \<and>
   read_html site_no_table (str ''<p>'') = Inl (str ''No tables found'') \<and>
   fst (load_data site_no_table None) = None \<and>
   filter is_message (snd (load_data site_no_table None)) =
     [Error (str ''Erro ao carregar dados: No tables found'')] \<and>
   load_data site_not_found None = load_data site_up None"
proof -
  have g1: "http_get site_down (url None) headers = Inl (str ''Connection refused'')"
    by (simp add: site_down_def)
  have g2: "http_get site_no_table (url None) headers =
      Inr \<lparr>status_code = 200, response_text = str ''<p>''\<rparr>"
    by (simp add: site_no_table_def)
  have p2: "read_html site_no_table (response_text \<lparr>status_code = 200, response_text = str ''<p>''\<rparr>) =
      Inl (str ''No tables found'')"
    by (simp add: site_no_table_def)
  have r1: "fst (load_data site_down None) = None \<and>
      filter is_message (snd (load_data site_down None)) =
        [Error (str ''Erro ao carregar dados: '' @ str ''Connection refused'')]"
    using failures_alike [of site_down None] g1 by blast
  have r2: "fst (load_data site_no_table None) = None \<and>
      filter is_message (snd (load_data site_no_table None)) =
        [Error (str ''Erro ao carregar dados: '' @ str ''No tables found'')]"
    using failures_alike [of site_no_table None] g2 p2 by blast
  have same: "site_up\<lparr>http_get :=
      \<lambda>u h. map_sum (\<lambda>e. e) (\<lambda>r. r\<lparr>status_code := 404\<rparr>) (http_get site_up u h)\<rparr> = site_not_found"
    by (simp add: site_up_def site_not_found_def)
  have "load_data
      (site_up\<lparr>http_get :=
         \<lambda>u h. map_sum (\<lambda>e. e) (\<lambda>r. r\<lparr>status_code := 404\<rparr>) (http_get site_up u h)\<rparr>) None =
      load_data site_up None"
    using failures_alike [of site_up None] by blast
  then have r3: "load_data site_not_found None = load_data site_up None"
    by (simp only: same)
  from g1 g2 p2 r1 r2 r3 show ?thesis
    by (simp add: str_def)
qed

section \<open>Calls after the first\<close>

text \<open>
  Claim C2. After a first call for a season code that returned a table, every later
  call with that season code returns the same table, whatever the site would answer
  then and whatever calls came in between, and the session is as before the call: no
  request, no parse, no message, no change of the cache.
\<close>

theorem cached_table_reused:
  assumes "cache s season_code = None"
    and "cache_data (load_data w) season_code s = (Some t, s1)"
  shows "cache_data (load_data w') season_code (calls cs s1) = (Some t, calls cs s1)"
proof -
  from first_call_stores [OF assms]
  have stored: "cache s1 season_code =
      Some (Some t, filter is_message (snd (load_data w season_code)))"
    and v: "fst (load_data w season_code) = Some t"
    by simp_all
  from v load_data_messages [of w season_code]
  have "filter is_message (snd (load_data w season_code)) = []"
    by auto
  with stored have "cache s1 season_code = Some (Some t, [])"
    by simp
  then have "cache (calls cs s1) season_code = Some (Some t, [])"
    by (rule calls_keeps)
  then have "cache_data (load_data w') season_code (calls cs s1) =
      (Some t, (calls cs s1)\<lparr>trace := trace (calls cs s1) @ []\<rparr>)"
    by (rule cache_data_hit)
  then show ?thesis
    by simp
qed

theorem cached_table_reused_witness:
  "cache fresh (Some (str ''2021-2022'')) = None \<and>
   fst (cache_data (load_data site_up) (Some (str ''2021-2022'')) fresh) = Some scenario_result \<and>
   fst (load_data site_down (Some (str ''2021-2022''))) = None \<and>
   cache_data (load_data site_down) (Some (str ''2021-2022''))
     (calls [(site_down, None)]
        (snd (cache_data (load_data site_up) (Some (str ''2021-2022'')) fresh))) =
   (Some scenario_result,
    calls [(site_down, None)]
      (snd (cache_data (load_data site_up) (Some (str ''2021-2022'')) fresh)))"
proof -
  have h1: "cache fresh (Some (str ''2021-2022'')) = None"
    by (simp add: fresh_def)
  have f: "fst (cache_data (load_data site_up) (Some (str ''2021-2022'')) fresh) =
      Some scenario_result"
    by (simp add: cache_data_miss [OF h1] load_data_site_up)
  then have h2: "cache_data (load_data site_up) (Some (str ''2021-2022'')) fresh =
      (Some scenario_result, snd (cache_data (load_data site_up) (Some (str ''2021-2022'')) fresh))"
    by (metis prod.collapse)
  have d: "fst (load_data site_down (Some (str ''2021-2022''))) = None"
    by (simp add: load_data_site_down)
  from cached_table_reused [OF h1 h2, of site_down "[(site_down, None)]"] h1 f d
  show ?thesis
    by simp
qed

text \<open>
  Claim C1, as stated, fails. The first call finds the site down and returns None; the
  cache keeps that None as it keeps any value the function returns. At the second call
  the site is up, a call of the function itself would return the table, and yet the
  cached call returns None: the trace of the two calls has one request only, and the
  message twice.
\<close>

theorem failure_is_cached:
  "fst (cache_data (load_data site_down) None fresh) = None \<and>
   fst (load_data site_up None) = Some scenario_result \<and>
   fst (cache_data (load_data site_up) None (snd (cache_data (load_data site_down) None fresh))) =
     None \<and>
   trace (snd (cache_data (load_data site_up) None
      (snd (cache_data (load_data site_down) None fresh)))) =
     [Get (url None),
      Error (str ''Erro ao carregar dados: Connection refused''),
      Error (str ''Erro ao carregar dados: Connection refused'')]"
  unfolding first_call_site_down load_data_site_up fst_conv snd_conv
  by (simp add: cache_data_hit str_def)

text \<open>
  Claim C1, amended. After a first call for a season code that returned None, every
  later call with that season code returns None again, whatever the site would answer
  then and whatever calls came in between; it makes no request and no parse, and what
  it adds to the trace is the message the first call showed, the one message
  \<open>Erro ao carregar dados: \<close> with the text of the exception of the first call.
\<close>

theorem cached_failure_reused:
  assumes "cache s season_code = None"
    and "cache_data (load_data w) season_code s = (None, s1)"
  shows "cache_data (load_data w') season_code (calls cs s1) =
      (None,
       (calls cs s1)\<lparr>trace := trace (calls cs s1) @
          filter is_message (snd (load_data w season_code))\<rparr>) \<and>
    (\<exists>e. filter is_message (snd (load_data w season_code)) =
       [Error (str ''Erro ao carregar dados: '' @ e)])"
proof -
  from first_call_stores [OF assms]
  have stored: "cache s1 season_code =
      Some (None, filter is_message (snd (load_data w season_code)))"
    and v: "fst (load_data w season_code) = None"
    by simp_all
  from stored have "cache (calls cs s1) season_code =
      Some (None, filter is_message (snd (load_data w season_code)))"
    by (rule calls_keeps)
  then have hit: "cache_data (load_data w') season_code (calls cs s1) =
      (None, (calls cs s1)\<lparr>trace := trace (calls cs s1) @
         filter is_message (snd (load_data w season_code))\<rparr>)"
    by (rule cache_data_hit)
  from v load_data_messages [of w season_code]
  have "\<exists>e. filter is_message (snd (load_data w season_code)) =
      [Error (str ''Erro ao carregar dados: '' @ e)]"
    by auto
  with hit show ?thesis
    by (rule conjI)
qed

theorem cached_failure_reused_witness:
  "cache fresh None = None \<and>
   cache_data (load_data site_down) None fresh =
     (None, snd (cache_data (load_data site_down) None fresh)) \<and>
   filter is_message (snd (load_data site_down None)) =
     [Error (str ''Erro ao carregar dados: Connection refused'')] \<and>
   fst (load_data site_up None) = Some scenario_result \<and>
   cache_data (load_data site_up) None
     (calls [(site_up, Some (str ''2021-2022''))]
        (snd (cache_data (load_data site_down) None fresh))) =
   (None,
    (calls [(site_up, Some (str ''2021-2022''))]
       (snd (cache_data (load_data site_down) None fresh)))
    \<lparr>trace :=
       trace (calls [(site_up, Some (str ''2021-2022''))]
         (snd (cache_data (load_data site_down) None fresh))) @
       [Error (str ''Erro ao carregar dados: Connection refused'')]\<rparr>)"
proof -
  have h1: "cache fresh None = None"
    by (simp add: fresh_def)
  have f: "fst (cache_data (load_data site_down) None fresh) = None"
    by (simp add: first_call_site_down)
  then have h2: "cache_data (load_data site_down) None fresh =
      (None, snd (cache_data (load_data site_down) None fresh))"
    by (metis prod.collapse)
  have m: "filter is_message (snd (load_data site_down None)) =
      [Error (str ''Erro ao carregar dados: Connection refused'')]"
    by (simp add: load_data_site_down str_def)
  from cached_failure_reused [OF h1 h2, of site_up "[(site_up, Some (str ''2021-2022''))]"]
  have "cache_data (load_data site_up) None
     (calls [(site_up, Some (str ''2021-2022''))]
        (snd (cache_data (load_data site_down) None fresh))) =
   (None,
    (calls [(site_up, Some (str ''2021-2022''))]
       (snd (cache_data (load_data site_down) None fresh)))
    \<lparr>trace :=
       trace (calls [(site_up, Some (str ''2021-2022''))]
         (snd (cache_data (load_data site_down) None fresh))) @
       filter is_message (snd (load_data site_down None))\<rparr>)"
    by (rule conjunct1)
  then have second: "cache_data (load_data site_up) None
     (calls [(site_up, Some (str ''2021-2022''))]
        (snd (cache_data (load_data site_down) None fresh))) =
   (None,
    (calls [(site_up, Some (str ''2021-2022''))]
       (snd (cache_data (load_data site_down) None fresh)))
    \<lparr>trace :=
       trace (calls [(site_up, Some (str ''2021-2022''))]
         (snd (cache_data (load_data site_down) None fresh))) @
       [Error (str ''Erro ao carregar dados: Connection refused'')]\<rparr>)"
    by (simp only: m)
  have up: "fst (load_data site_up None) = Some scenario_result"
    by (simp add: load_data_site_up)
  from h1 h2 m up second show ?thesis
    by (intro conjI)
qed

end
